theory Spec2Isabelle
  imports Main "HOL-Library.Word" "HOL-Library.Monad_Syntax"
begin

section \<open>Bytes, buffers and memory reads\<close>

text \<open>
  A Go \<open>[]byte\<close> is a list of 8-bit words. The only memory the model knows is the
  buffer itself: a read at an index the buffer does not have is \<open>None\<close> (in Go, a read
  through an \<open>unsafe.Pointer\<close> past the allocation has no defined result).
\<close>

type_synonym byte = "8 word"
type_synonym bytes = "byte list"

definition byte_at :: "bytes \<Rightarrow> nat \<Rightarrow> byte option" where
  "byte_at m i = (if i < length m then Some (m ! i) else None)"

text \<open>Reading \<open>n\<close> consecutive bytes from address \<open>a\<close>, one index at a time.\<close>

fun read_bytes :: "bytes \<Rightarrow> nat \<Rightarrow> nat \<Rightarrow> bytes option" where
  "read_bytes m a 0 = Some []"
| "read_bytes m a (Suc n) =
     (case byte_at m a of
        None \<Rightarrow> None
      | Some b \<Rightarrow> (case read_bytes m (Suc a) n of None \<Rightarrow> None | Some bs \<Rightarrow> Some (b # bs)))"

text \<open>Writing the bytes \<open>bs\<close> at address \<open>a\<close> (the caller keeps the write in range).\<close>

definition store_bytes :: "bytes \<Rightarrow> nat \<Rightarrow> bytes \<Rightarrow> bytes" where
  "store_bytes m a bs = take a m @ bs @ drop (a + length bs) m"

text \<open>
  A Go slice value: the backing array, the index of its first element there, and its
  length. \<open>subslice s lo hi\<close> is \<open>s[lo:hi]\<close>, which shares the backing array.
\<close>

record byte_slice =
  backing :: bytes
  start :: nat
  count :: nat

definition whole :: "bytes \<Rightarrow> byte_slice" where
  "whole b = \<lparr>backing = b, start = 0, count = length b\<rparr>"

definition subslice :: "byte_slice \<Rightarrow> nat \<Rightarrow> nat \<Rightarrow> byte_slice" where
  "subslice s lo hi = \<lparr>backing = backing s, start = start s + lo, count = hi - lo\<rparr>"

section \<open>The TDReport struct (main.go, lines 23-47)\<close>

datatype TDReport_field =
    ReportType | Reserved1 | CpuSvn | TeeTcbInfoHash | TeeInfoHash | ReportData
  | Reserved2 | MacStruct | TeeTcbSvn | MrSeam | MrSignerSeam | SeamAttributes
  | TdAttributes | Xfam | MrTd | MrConfigId | MrOwner | MrOwnerConfig
  | Rtmr0 | Rtmr1 | Rtmr2 | Rtmr3 | ServTdHash

text \<open>The fields in declaration order, each a byte array of the declared length.\<close>

definition TDReport_layout :: "(TDReport_field \<times> nat) list" where
  "TDReport_layout =
     [(ReportType, 4), (Reserved1, 12), (CpuSvn, 16), (TeeTcbInfoHash, 48),
      (TeeInfoHash, 48), (ReportData, 64), (Reserved2, 32), (MacStruct, 256),
      (TeeTcbSvn, 16), (MrSeam, 48), (MrSignerSeam, 48), (SeamAttributes, 8),
      (TdAttributes, 8), (Xfam, 8), (MrTd, 48), (MrConfigId, 48), (MrOwner, 48),
      (MrOwnerConfig, 48), (Rtmr0, 48), (Rtmr1, 48), (Rtmr2, 48), (Rtmr3, 48),
      (ServTdHash, 48)]"

text \<open>
  Byte arrays have alignment 1, so the struct has no padding: a field starts where the
  fields declared before it end.
\<close>

fun offset_in :: "('f \<times> nat) list \<Rightarrow> 'f \<Rightarrow> nat" where
  "offset_in [] f = 0"
| "offset_in ((g, w) # rest) f = (if g = f then 0 else w + offset_in rest f)"

fun size_in :: "('f \<times> nat) list \<Rightarrow> 'f \<Rightarrow> nat" where
  "size_in [] f = 0"
| "size_in ((g, w) # rest) f = (if g = f then w else size_in rest f)"

definition field_offset :: "TDReport_field \<Rightarrow> nat" where
  "field_offset f = offset_in TDReport_layout f"

definition field_size :: "TDReport_field \<Rightarrow> nat" where
  "field_size f = size_in TDReport_layout f"

definition sizeof_TDReport :: nat where
  "sizeof_TDReport = sum_list (map snd TDReport_layout)"

text \<open>
  A \<open>*TDReport\<close>: an address in some memory. Reading a field reads its bytes at the
  address plus the field's offset.
\<close>

record TDReport_ptr =
  mem :: bytes
  addr :: nat

definition load_field :: "TDReport_ptr \<Rightarrow> TDReport_field \<Rightarrow> bytes option" where
  "load_field p f = read_bytes (mem p) (addr p + field_offset f) (field_size f)"

text \<open>\<open>&TDReport{}\<close>: a fresh struct, every byte zero.\<close>

definition new_TDReport :: TDReport_ptr where
  "new_TDReport = \<lparr>mem = replicate sizeof_TDReport 0, addr = 0\<rparr>"

text \<open>
  \<open>copy(tdReport.F[:], src)\<close>: Go's \<open>copy\<close> moves \<open>min(len(dst), len(src))\<close> bytes
  and reports no error.
\<close>

definition copy_to_field :: "TDReport_ptr \<Rightarrow> TDReport_field \<Rightarrow> bytes \<Rightarrow> TDReport_ptr" where
  "copy_to_field p f src =
     (let n = min (field_size f) (length src)
      in p\<lparr>mem := store_bytes (mem p) (addr p + field_offset f) (take n src)\<rparr>)"

text \<open>The whole struct at the pointer lies inside the memory.\<close>

definition allocated :: "TDReport_ptr \<Rightarrow> bool" where
  "allocated p = (addr p + sizeof_TDReport \<le> length (mem p))"

section \<open>Raw-mode extraction (main.go, lines 148-173)\<close>

datatype error = QuoteTooShort nat | InvalidTDReportSize nat

text \<open>\<open>(*TDReport)(unsafe.Pointer(&s[0]))\<close>: the address of the slice's first element.\<close>

definition unsafe_cast :: "byte_slice \<Rightarrow> TDReport_ptr" where
  "unsafe_cast s = \<lparr>mem = backing s, addr = start s\<rparr>"

definition extractTDReportFromRawQuote :: "bytes \<Rightarrow> error + TDReport_ptr" where
  "extractTDReportFromRawQuote quoteData =
     (if length quoteData < 632 then Inl (QuoteTooShort (length quoteData))
      else
        let tdReportBytes = subslice (whole quoteData) 48 632 in
        if count tdReportBytes \<noteq> 584 then Inl (InvalidTDReportSize (count tdReportBytes))
        else Inr (unsafe_cast tdReportBytes))"

section \<open>Hex encoding and big-endian integers\<close>

text \<open>
  \<open>%x\<close> on a byte slice and \<open>hex.EncodeToString\<close> both write two lowercase
  hexadecimal digits per byte, high nibble first. \<open>big.Int.SetBytes\<close> reads a
  big-endian unsigned integer.
\<close>

definition hextable :: string where
  "hextable = ''0123456789abcdef''"

definition hexdigit :: "nat \<Rightarrow> char" where
  "hexdigit n = hextable ! n"

definition hex_byte :: "byte \<Rightarrow> string" where
  "hex_byte b = [hexdigit (unat b div 16), hexdigit (unat b mod 16)]"

definition hex :: "bytes \<Rightarrow> string" where
  "hex bs = concat (map hex_byte bs)"

definition SetBytes :: "bytes \<Rightarrow> nat" where
  "SetBytes bs = foldl (\<lambda>n b. n * 256 + unat b) 0 bs"

section \<open>The decoded quote (the protobuf messages of go-tdx-guest)\<close>

text \<open>
  The message types belong to an external library; the records list their fields. A
  message field that is absent (a nil pointer) is \<open>None\<close>.
\<close>

record Header =
  version :: nat
  attestationKeyType :: nat
  teeType :: nat
  qeSvn :: bytes
  pceSvn :: bytes
  qeVendorId :: bytes
  userData :: bytes

record TDQuoteBody =
  teeTcbSvn :: bytes
  mrSeam :: bytes
  mrSignerSeam :: bytes
  seamAttributes :: bytes
  tdAttributes :: bytes
  xfam :: bytes
  mrTd :: bytes
  mrConfigId :: bytes
  mrOwner :: bytes
  mrOwnerConfig :: bytes
  rtmrs :: "bytes list"
  reportData :: bytes

record SignedData =
  signature :: bytes
  ecdsaAttestationKey :: bytes

record QuoteV4 =
  header :: "Header option"
  tdQuoteBody :: "TDQuoteBody option"
  signedData :: "SignedData option"

text \<open>What \<open>abi.QuoteToProto\<close> returns on success: a QuoteV4 or a value of another type.\<close>

datatype abi_quote = AbiQuoteV4 QuoteV4 | AbiOtherFormat

section \<open>External libraries and the program's output\<close>

text \<open>
  The library functions the program calls are parameters of the model; one that may
  return an error returns \<open>None\<close> for it. \<open>verify_RawTdxQuote\<close> is true when the
  library returns no error.
\<close>

record extern =
  proto_Unmarshal :: "bytes \<Rightarrow> QuoteV4 option"
  abi_QuoteToProto :: "bytes \<Rightarrow> abi_quote option"
  verify_RawTdxQuote :: "bytes \<Rightarrow> bool"
  P256_IsOnCurve :: "nat \<Rightarrow> nat \<Rightarrow> bool"
  abi_HeaderToAbiBytes :: "Header \<Rightarrow> bytes option"
  abi_TdQuoteBodyToAbiBytes :: "TDQuoteBody \<Rightarrow> bytes option"
  sha256_Sum256 :: "bytes \<Rightarrow> bytes"
  ecdsa_Verify :: "nat \<Rightarrow> nat \<Rightarrow> bytes \<Rightarrow> nat \<Rightarrow> nat \<Rightarrow> bool"

datatype ext_call =
    ProtoUnmarshal bytes
  | AbiQuoteToProto bytes
  | VerifyRawTdxQuote bytes
  | IsOnCurve nat nat
  | HeaderToAbiBytes Header
  | TdQuoteBodyToAbiBytes TDQuoteBody
  | Sha256 bytes
  | EcdsaVerify nat nat bytes nat nat

datatype fatal = NoTdQuoteBody | ExtractFailed error

text \<open>
  The run's log, in order: one event for each library call and for each print statement
  that reports a result (titles, rulers and the fixed legend are left out). The
  constructors name the message: \<open>PublicKeyNotOnCurve\<close> is line 295,
  \<open>PayloadReconstructionFailed\<close> line 310, \<open>VerificationPassed\<close> and
  \<open>VerificationFailed\<close> lines 321 and 323, \<open>RtmrUninitialized\<close> line 193,
  \<open>RtmrHex\<close> line 195, \<open>Fatal\<close> a \<open>log.Fatal\<close>, which ends the run.
\<close>

datatype event =
    Called ext_call
  | DetectedProtobuf
  | DetectedRawQuoteV4
  | DetectedRawManual
  | HeaderFields Header
  | NoHeaderFound
  | SignaturePresent bool nat
  | PublicKeyPresent bool nat
  | EcdsaFormatDetected
  | UnexpectedSizes nat nat
  | ShowSignature string
  | ShowPublicKey string
  | NoSignedDataFound
  | InvalidSignatureLength nat
  | SignatureR string
  | SignatureS string
  | InvalidPublicKeyLength nat
  | PublicKeyX string
  | PublicKeyY string
  | PublicKeyNotOnCurve
  | PublicKeyValid
  | HeaderAbiWarning
  | BodyAbiWarning
  | SignedPayloadLength nat
  | PayloadReconstructionFailed
  | SignedDataHash string
  | VerificationPassed
  | VerificationFailed
  | VerifyWarning
  | RtmrUninitialized nat
  | RtmrHex nat string
  | MrTdHex string
  | MrConfigIdHex string
  | MrOwnerHex string
  | MrOwnerConfigHex string
  | Fatal fatal

section \<open>The report (main.go, lines 175-212)\<close>

text \<open>The inner loop of lines 184-190: stop at the first nonzero byte.\<close>

fun allZeros :: "bytes \<Rightarrow> bool" where
  "allZeros [] = True"
| "allZeros (b # rest) = (if b \<noteq> 0 then False else allZeros rest)"

definition rtmr_line :: "nat \<times> bytes \<Rightarrow> event" where
  "rtmr_line ir =
     (case ir of (i, rtmr) \<Rightarrow>
        if allZeros rtmr then RtmrUninitialized i else RtmrHex i (hex rtmr))"

text \<open>
  Each field is read through the pointer; a read outside the memory makes the whole
  result \<open>None\<close>.
\<close>

definition printRTMRValues :: "TDReport_ptr \<Rightarrow> event list option" where
  "printRTMRValues tdReport =
     do {
       rtmr0 \<leftarrow> load_field tdReport Rtmr0;
       rtmr1 \<leftarrow> load_field tdReport Rtmr1;
       rtmr2 \<leftarrow> load_field tdReport Rtmr2;
       rtmr3 \<leftarrow> load_field tdReport Rtmr3;
       let rtmrs = [rtmr0, rtmr1, rtmr2, rtmr3];
       let lines = map rtmr_line (enumerate 0 rtmrs);
       mrTd' \<leftarrow> load_field tdReport MrTd;
       mrConfigId' \<leftarrow> load_field tdReport MrConfigId;
       mrOwner' \<leftarrow> load_field tdReport MrOwner;
       mrOwnerConfig' \<leftarrow> load_field tdReport MrOwnerConfig;
       Some (lines @ [MrTdHex (hex mrTd'), MrConfigIdHex (hex mrConfigId'),
                      MrOwnerHex (hex mrOwner'), MrOwnerConfigHex (hex mrOwnerConfig')])
     }"

section \<open>Signature validation (main.go, lines 214-363)\<close>

definition createSignedPayload :: "extern \<Rightarrow> QuoteV4 \<Rightarrow> event list \<times> bytes option" where
  "createSignedPayload ext quote =
     (case header quote of
        None \<Rightarrow> ([], None)
      | Some hdr \<Rightarrow>
         (case tdQuoteBody quote of
            None \<Rightarrow> ([], None)
          | Some body \<Rightarrow>
             (case abi_HeaderToAbiBytes ext hdr of
                None \<Rightarrow> ([Called (HeaderToAbiBytes hdr), HeaderAbiWarning], None)
              | Some headerBytes \<Rightarrow>
                 (case abi_TdQuoteBodyToAbiBytes ext body of
                    None \<Rightarrow>
                      ([Called (HeaderToAbiBytes hdr), Called (TdQuoteBodyToAbiBytes body),
                        BodyAbiWarning], None)
                  | Some tdQuoteBodyBytes \<Rightarrow>
                      let signedData' = ([] @ headerBytes) @ tdQuoteBodyBytes in
                      ([Called (HeaderToAbiBytes hdr), Called (TdQuoteBodyToAbiBytes body),
                        SignedPayloadLength (length signedData')], Some signedData')))))"

definition validateECDSASignature :: "extern \<Rightarrow> QuoteV4 \<Rightarrow> bytes \<Rightarrow> bytes \<Rightarrow> event list" where
  "validateECDSASignature ext quote sig publicKey =
     (if length sig \<noteq> 64 then [InvalidSignatureLength (length sig)]
      else
        let r = SetBytes (take 32 sig); s = SetBytes (drop 32 sig) in
        [SignatureR (hex (take 32 sig)), SignatureS (hex (drop 32 sig))] @
        (if length publicKey \<noteq> 64 then [InvalidPublicKeyLength (length publicKey)]
         else
           let x = SetBytes (take 32 publicKey); y = SetBytes (drop 32 publicKey) in
           [PublicKeyX (hex (take 32 publicKey)), PublicKeyY (hex (drop 32 publicKey)),
            Called (IsOnCurve x y)] @
           (if \<not> P256_IsOnCurve ext x y then [PublicKeyNotOnCurve]
            else
              PublicKeyValid #
              (case createSignedPayload ext quote of
                 (evs, None) \<Rightarrow> evs @ [PayloadReconstructionFailed]
               | (evs, Some signedPayload) \<Rightarrow>
                   let hash = sha256_Sum256 ext signedPayload;
                       valid = ecdsa_Verify ext x y hash r s
                   in evs @
                      [Called (Sha256 signedPayload), SignedDataHash (hex hash),
                       Called (EcdsaVerify x y hash r s),
                       if valid then VerificationPassed else VerificationFailed]))))"

definition validateQuoteStructure :: "extern \<Rightarrow> QuoteV4 \<Rightarrow> event list" where
  "validateQuoteStructure ext quote =
     (case header quote of
        None \<Rightarrow> [NoHeaderFound]
      | Some hdr \<Rightarrow>
          HeaderFields hdr #
          (case signedData quote of
             None \<Rightarrow> [NoSignedDataFound]
           | Some sd \<Rightarrow>
               let sig = signature sd; publicKey = ecdsaAttestationKey sd in
               [SignaturePresent (0 < length sig) (length sig),
                PublicKeyPresent (0 < length publicKey) (length publicKey)] @
               (if length sig = 64 \<and> length publicKey = 64
                then EcdsaFormatDetected # validateECDSASignature ext quote sig publicKey
                else [UnexpectedSizes (length sig) (length publicKey)]) @
               (if 0 < length sig then [ShowSignature (hex sig)] else []) @
               (if 0 < length publicKey then [ShowPublicKey (hex publicKey)] else [])))"

section \<open>Extraction from a decoded quote (main.go, lines 92-120)\<close>

text \<open>
  Lines 102-117, the conversion of the decoded body into a TDReport: the four registers
  are copied only when the list has at least four entries.
\<close>

definition tdReport_of_body :: "TDQuoteBody \<Rightarrow> TDReport_ptr" where
  "tdReport_of_body body =
     (let tdReport = new_TDReport;
          rs = rtmrs body;
          tdReport =
            (if 4 \<le> length rs
             then copy_to_field
                    (copy_to_field
                      (copy_to_field (copy_to_field tdReport Rtmr0 (rs ! 0)) Rtmr1 (rs ! 1))
                      Rtmr2 (rs ! 2))
                    Rtmr3 (rs ! 3)
             else tdReport);
          tdReport = copy_to_field tdReport MrTd (mrTd body);
          tdReport = copy_to_field tdReport MrConfigId (mrConfigId body);
          tdReport = copy_to_field tdReport MrOwner (mrOwner body);
          tdReport = copy_to_field tdReport MrOwnerConfig (mrOwnerConfig body)
      in tdReport)"

definition extractFromQuoteV4 :: "extern \<Rightarrow> QuoteV4 \<Rightarrow> event list option" where
  "extractFromQuoteV4 ext quote =
     (let validation = validateQuoteStructure ext quote in
      case tdQuoteBody quote of
        None \<Rightarrow> Some (validation @ [Fatal NoTdQuoteBody])
      | Some body \<Rightarrow> map_option ((@) validation) (printRTMRValues (tdReport_of_body body)))"

text \<open>
  The expected content of the report, in the words of the specification: a copied source
  shorter than 48 bytes fills the leading bytes of the field and leaves the rest zero, a
  longer one is cut to its first 48 bytes; the registers come from the first four list
  entries when there are at least four, and stay zero otherwise.
\<close>

definition zero_padded_48 :: "bytes \<Rightarrow> bytes" where
  "zero_padded_48 src =
     (if length src < 48 then src @ replicate (48 - length src) 0 else take 48 src)"

definition body_registers :: "TDQuoteBody \<Rightarrow> bytes list" where
  "body_registers body =
     (if 4 \<le> length (rtmrs body) then map zero_padded_48 (take 4 (rtmrs body))
      else replicate 4 (replicate 48 0))"

definition body_report :: "TDQuoteBody \<Rightarrow> event list" where
  "body_report body =
     map rtmr_line (enumerate 0 (body_registers body)) @
     [MrTdHex (hex (zero_padded_48 (mrTd body))),
      MrConfigIdHex (hex (zero_padded_48 (mrConfigId body))),
      MrOwnerHex (hex (zero_padded_48 (mrOwner body))),
      MrOwnerConfigHex (hex (zero_padded_48 (mrOwnerConfig body)))]"

section \<open>Extraction from raw bytes and the decoder (main.go, lines 69-90, 122-146)\<close>

definition extractFromRawQuote :: "extern \<Rightarrow> bytes \<Rightarrow> event list option" where
  "extractFromRawQuote ext quoteData =
     (let checked =
            Called (VerifyRawTdxQuote quoteData) #
            (if verify_RawTdxQuote ext quoteData then [] else [VerifyWarning])
      in case extractTDReportFromRawQuote quoteData of
           Inl err \<Rightarrow> Some (checked @ [Fatal (ExtractFailed err)])
         | Inr tdReport \<Rightarrow> map_option ((@) checked) (printRTMRValues tdReport))"


section \<open>The boot measurement replay (the Python of the replay script, lines 23-43)\<close>

text \<open>
  \<open>hashlib.sha384\<close> is a parameter \<open>H\<close>. \<open>bytes.rstrip(b'\n')\<close> removes bytes from
  the right end for as long as they are the newline byte.
\<close>

definition sha384 :: "(bytes \<Rightarrow> bytes) \<Rightarrow> bytes \<Rightarrow> bytes" where
  "sha384 H data = H data"

definition extend :: "(bytes \<Rightarrow> bytes) \<Rightarrow> bytes \<Rightarrow> bytes \<Rightarrow> bytes" where
  "extend H rtmr measurement = H (rtmr @ measurement)"

definition rstrip_newline :: "bytes \<Rightarrow> bytes" where
  "rstrip_newline data = rev (dropWhile (\<lambda>b. b = 0x0A) (rev data))"

definition replay :: "(bytes \<Rightarrow> bytes) \<Rightarrow> bytes \<Rightarrow> bytes \<Rightarrow> bytes \<Rightarrow> bytes" where
  "replay H kernel_file initrd_file cmdline_file =
     (let cmdline = rstrip_newline cmdline_file;
          rtmr = replicate 48 0;
          rtmr = extend H rtmr (sha384 H kernel_file);
          rtmr = extend H rtmr (sha384 H initrd_file);
          rtmr = extend H rtmr (sha384 H cmdline)
      in rtmr)"

definition replay_output :: "(bytes \<Rightarrow> bytes) \<Rightarrow> bytes \<Rightarrow> bytes \<Rightarrow> bytes \<Rightarrow> string" where
  "replay_output H kernel_file initrd_file cmdline_file =
     ''RTMR[1] = '' @ hex (replay H kernel_file initrd_file cmdline_file)"

section \<open>Decoder events and concrete inputs\<close>

text \<open>
  The events that only the second and third decoding strategies produce: the ABI
  conversion, the raw-mode check and extraction, and their format lines.
\<close>

definition later_strategy :: "event \<Rightarrow> bool" where
  "later_strategy e =
     (case e of
        Called c \<Rightarrow>
          (case c of AbiQuoteToProto _ \<Rightarrow> True | VerifyRawTdxQuote _ \<Rightarrow> True | _ \<Rightarrow> False)
      | DetectedRawQuoteV4 \<Rightarrow> True
      | DetectedRawManual \<Rightarrow> True
      | VerifyWarning \<Rightarrow> True
      | Fatal f \<Rightarrow> (case f of ExtractFailed _ \<Rightarrow> True | NoTdQuoteBody \<Rightarrow> False)
      | _ \<Rightarrow> False)"

text \<open>A \<open>log.Fatal\<close>, and the events that are neither of these two kinds.\<close>

definition ends_run :: "event \<Rightarrow> bool" where
  "ends_run e = (case e of Fatal _ \<Rightarrow> True | _ \<Rightarrow> False)"

definition plain_event :: "event \<Rightarrow> bool" where
  "plain_event e = (\<not> later_strategy e \<and> \<not> ends_run e)"

text \<open>The events of hashing the payload and of the ECDSA check.\<close>

definition hash_or_verify :: "event \<Rightarrow> bool" where
  "hash_or_verify e =
     (case e of
        Called c \<Rightarrow> (case c of Sha256 _ \<Rightarrow> True | EcdsaVerify _ _ _ _ _ \<Rightarrow> True | _ \<Rightarrow> False)
      | SignedDataHash _ \<Rightarrow> True
      | VerificationPassed \<Rightarrow> True
      | VerificationFailed \<Rightarrow> True
      | _ \<Rightarrow> False)"

text \<open>
  Concrete inputs for the examples. The curve test is the equation of NIST P-256 and the
  sample key is the curve's base point; the encoders, the hash and the signature check
  of \<open>sample_ext\<close> return fixed results, and its signature check always fails.
\<close>

definition P256_p :: nat where
  "P256_p = 0xffffffff00000001000000000000000000000000ffffffffffffffffffffffff"

definition P256_b :: nat where
  "P256_b = 0x5ac635d8aa3a93e7b3ebbd55769886bc651d06b0cc53b0f63bce3c3e27d2604b"

definition P256_equation :: "nat \<Rightarrow> nat \<Rightarrow> bool" where
  "P256_equation x y =
     (x < P256_p \<and> y < P256_p \<and>
      (y * y) mod P256_p = (x * x * x + (P256_p - 3) * x + P256_b) mod P256_p)"

definition P256_Gx :: nat where
  "P256_Gx = 0x6b17d1f2e12c4247f8bce6e563a440f277037d812deb33a0f4a13945d898c296"

definition P256_Gy :: nat where
  "P256_Gy = 0x4fe342e2fe1a7f9b8ee7eb4a7c0f9e162bce33576b315ececbb6406837bf51f5"

definition sample_key :: bytes where
  "sample_key =
     [0x6b, 0x17, 0xd1, 0xf2, 0xe1, 0x2c, 0x42, 0x47, 0xf8, 0xbc, 0xe6, 0xe5, 0x63, 0xa4, 0x40, 0xf2,
      0x77, 0x03, 0x7d, 0x81, 0x2d, 0xeb, 0x33, 0xa0, 0xf4, 0xa1, 0x39, 0x45, 0xd8, 0x98, 0xc2, 0x96,
      0x4f, 0xe3, 0x42, 0xe2, 0xfe, 0x1a, 0x7f, 0x9b, 0x8e, 0xe7, 0xeb, 0x4a, 0x7c, 0x0f, 0x9e, 0x16,
      0x2b, 0xce, 0x33, 0x57, 0x6b, 0x31, 0x5e, 0xce, 0xcb, 0xb6, 0x40, 0x68, 0x37, 0xbf, 0x51, 0xf5]"

definition sample_signature :: bytes where
  "sample_signature = replicate 32 1 @ replicate 32 2"

definition sample_ext :: extern where
  "sample_ext =
     \<lparr>proto_Unmarshal = (\<lambda>_. None),
      abi_QuoteToProto = (\<lambda>_. None),
      verify_RawTdxQuote = (\<lambda>_. False),
      P256_IsOnCurve = P256_equation,
      abi_HeaderToAbiBytes = (\<lambda>_. Some (replicate 48 0)),
      abi_TdQuoteBodyToAbiBytes = (\<lambda>_. Some (replicate 584 0)),
      sha256_Sum256 = (\<lambda>_. replicate 32 0),
      ecdsa_Verify = (\<lambda>_ _ _ _ _. False)\<rparr>"

definition sample_header :: Header where
  "sample_header =
     \<lparr>version = 4, attestationKeyType = 2, teeType = 0x81, qeSvn = [0, 0], pceSvn = [0, 0],
      qeVendorId = replicate 16 0, userData = replicate 20 0\<rparr>"

definition sample_signedData :: SignedData where
  "sample_signedData = \<lparr>signature = sample_signature, ecdsaAttestationKey = sample_key\<rparr>"

text \<open>
  A body with the given register list, a 48-byte \<open>mrTd\<close>, a 3-byte \<open>mrConfigId\<close>, a
  50-byte \<open>mrOwner\<close> and an empty \<open>mrOwnerConfig\<close>.
\<close>

definition sample_body :: "bytes list \<Rightarrow> TDQuoteBody" where
  "sample_body rs =
     \<lparr>teeTcbSvn = replicate 16 0, mrSeam = replicate 48 0, mrSignerSeam = replicate 48 0,
      seamAttributes = replicate 8 0, tdAttributes = replicate 8 0, xfam = replicate 8 0,
      mrTd = replicate 48 5, mrConfigId = [1, 2, 3], mrOwner = replicate 50 7,
      mrOwnerConfig = [], rtmrs = rs, reportData = replicate 64 0\<rparr>"

definition four_registers :: "bytes list" where
  "four_registers = [replicate 48 1, replicate 48 2, replicate 48 3, replicate 48 4]"

definition quote_without_body :: QuoteV4 where
  "quote_without_body =
     \<lparr>header = Some sample_header, tdQuoteBody = None, signedData = Some sample_signedData\<rparr>"

definition sample_quote :: QuoteV4 where
  "sample_quote =
     \<lparr>header = Some sample_header, tdQuoteBody = Some (sample_body four_registers),
      signedData = Some sample_signedData\<rparr>"

section \<open>Facts about reads and the layout\<close>

lemma read_bytes_eq:
  "read_bytes m a n = (if n = 0 \<or> a + n \<le> length m then Some (take n (drop a m)) else None)"
proof (induction n arbitrary: a)
  case 0
  show ?case by simp
next
  case (Suc n)
  show ?case
  proof (cases "a < length m")
    case True
    then have "take (Suc n) (drop a m) = m ! a # take n (drop (Suc a) m)"
      by (simp add: take_Suc_conv_app_nth Cons_nth_drop_Suc [symmetric])
    with True Suc [of "Suc a"] show ?thesis
      by (auto simp: byte_at_def)
  next
    case False
    then show ?thesis by (simp add: byte_at_def)
  qed
qed

lemma field_offset_simps:
  "field_offset ReportType = 0" "field_offset Reserved1 = 4" "field_offset CpuSvn = 16"
  "field_offset TeeTcbInfoHash = 32" "field_offset TeeInfoHash = 80"
  "field_offset ReportData = 128" "field_offset Reserved2 = 192"
  "field_offset MacStruct = 224" "field_offset TeeTcbSvn = 480" "field_offset MrSeam = 496"
  "field_offset MrSignerSeam = 544" "field_offset SeamAttributes = 592"
  "field_offset TdAttributes = 600" "field_offset Xfam = 608" "field_offset MrTd = 616"
  "field_offset MrConfigId = 664" "field_offset MrOwner = 712"
  "field_offset MrOwnerConfig = 760" "field_offset Rtmr0 = 808" "field_offset Rtmr1 = 856"
  "field_offset Rtmr2 = 904" "field_offset Rtmr3 = 952" "field_offset ServTdHash = 1000"
  by (simp_all add: field_offset_def TDReport_layout_def)

lemma field_size_simps:
  "field_size ReportType = 4" "field_size Reserved1 = 12" "field_size CpuSvn = 16"
  "field_size TeeTcbInfoHash = 48" "field_size TeeInfoHash = 48"
  "field_size ReportData = 64" "field_size Reserved2 = 32"
  "field_size MacStruct = 256" "field_size TeeTcbSvn = 16" "field_size MrSeam = 48"
  "field_size MrSignerSeam = 48" "field_size SeamAttributes = 8"
  "field_size TdAttributes = 8" "field_size Xfam = 8" "field_size MrTd = 48"
  "field_size MrConfigId = 48" "field_size MrOwner = 48"
  "field_size MrOwnerConfig = 48" "field_size Rtmr0 = 48" "field_size Rtmr1 = 48"
  "field_size Rtmr2 = 48" "field_size Rtmr3 = 48" "field_size ServTdHash = 48"
  by (simp_all add: field_size_def TDReport_layout_def)

lemma sizeof_TDReport_eq: "sizeof_TDReport = 1048"
  by (simp add: sizeof_TDReport_def TDReport_layout_def)

lemma layout_disjoint:
  "f \<noteq> g \<Longrightarrow>
   offset_in l f + size_in l f \<le> offset_in l g \<or> offset_in l g + size_in l g \<le> offset_in l f"
  by (induction l) auto

lemma layout_end: "offset_in l f + size_in l f \<le> sum_list (map snd l)"
  by (induction l) auto

lemma fields_disjoint:
  "f \<noteq> g \<Longrightarrow>
   field_offset f + field_size f \<le> field_offset g \<or> field_offset g + field_size g \<le> field_offset f"
  unfolding field_offset_def field_size_def by (rule layout_disjoint)

lemma field_end: "field_offset f + field_size f \<le> sizeof_TDReport"
  unfolding field_offset_def field_size_def sizeof_TDReport_def by (rule layout_end)

lemma length_store_bytes:
  "a + length bs \<le> length m \<Longrightarrow> length (store_bytes m a bs) = length m"
  by (simp add: store_bytes_def)

lemma nth_store_bytes:
  "a + length bs \<le> length m \<Longrightarrow> i < length m \<Longrightarrow>
   store_bytes m a bs ! i = (if a \<le> i \<and> i < a + length bs then bs ! (i - a) else m ! i)"
  by (auto simp: store_bytes_def nth_append)

lemma region_outside_store:
  assumes "a + length bs \<le> length m" "b + n \<le> length m" "b + n \<le> a \<or> a + length bs \<le> b"
  shows "take n (drop b (store_bytes m a bs)) = take n (drop b m)"
  using assms by (auto simp: list_eq_iff_nth_eq length_store_bytes nth_store_bytes)

lemma region_of_store:
  assumes "a + n \<le> length m" "length bs \<le> n"
  shows "take n (drop a (store_bytes m a bs)) = bs @ drop (length bs) (take n (drop a m))"
  using assms
  by (auto simp: list_eq_iff_nth_eq length_store_bytes nth_store_bytes nth_append add.commute)

lemma extract_ok:
  "632 \<le> length B \<Longrightarrow> extractTDReportFromRawQuote B = Inr \<lparr>mem = B, addr = 48\<rparr>"
  by (simp add: extractTDReportFromRawQuote_def subslice_def whole_def unsafe_cast_def)

lemma load_cast:
  "load_field \<lparr>mem = B, addr = a\<rparr> f =
     (if field_size f = 0 \<or> a + field_offset f + field_size f \<le> length B
      then Some (take (field_size f) (drop (a + field_offset f) B)) else None)"
  by (simp add: load_field_def read_bytes_eq)

lemma load_allocated:
  "allocated p \<Longrightarrow>
   load_field p f = Some (take (field_size f) (drop (addr p + field_offset f) (mem p)))"
  using field_end [of f] by (simp add: load_field_def read_bytes_eq allocated_def)

lemma allocated_new: "allocated new_TDReport"
  by (simp add: allocated_def new_TDReport_def)

lemma load_new: "load_field new_TDReport f = Some (replicate (field_size f) 0)"
  using field_end [of f]
  by (simp add: load_allocated allocated_new) (simp add: new_TDReport_def)

lemma allocated_copy: "allocated p \<Longrightarrow> allocated (copy_to_field p g src)"
  using field_end [of g]
  by (simp add: allocated_def copy_to_field_def Let_def length_store_bytes)

lemma load_copy_other:
  assumes "allocated p" "f \<noteq> g"
  shows "load_field (copy_to_field p g src) f = load_field p f"
proof -
  let ?n = "min (field_size g) (length src)"
  have len: "addr p + field_offset g + length (take ?n src) \<le> length (mem p)"
    using assms(1) field_end [of g] by (simp add: allocated_def)
  have inb: "addr p + field_offset f + field_size f \<le> length (mem p)"
    using assms(1) field_end [of f] by (simp add: allocated_def)
  have dis: "addr p + field_offset f + field_size f \<le> addr p + field_offset g
     \<or> addr p + field_offset g + length (take ?n src) \<le> addr p + field_offset f"
    using fields_disjoint [OF assms(2)] by auto
  have "take (field_size f) (drop (addr p + field_offset f)
           (store_bytes (mem p) (addr p + field_offset g) (take ?n src)))
        = take (field_size f) (drop (addr p + field_offset f) (mem p))"
    by (rule region_outside_store [OF len inb dis])
  moreover have "addr (copy_to_field p g src) = addr p"
    and "mem (copy_to_field p g src) = store_bytes (mem p) (addr p + field_offset g) (take ?n src)"
    by (simp_all add: copy_to_field_def Let_def)
  ultimately show ?thesis
    using assms(1) allocated_copy [OF assms(1), of g src]
    by (simp add: load_allocated)
qed

lemma load_copy_same:
  assumes "allocated p"
  shows "load_field (copy_to_field p f src) f
         = map_option (\<lambda>old. take (field_size f) src @ drop (length src) old) (load_field p f)"
proof -
  let ?n = "min (field_size f) (length src)"
  let ?old = "take (field_size f) (drop (addr p + field_offset f) (mem p))"
  have inb: "addr p + field_offset f + field_size f \<le> length (mem p)"
    using assms(1) field_end [of f] by (simp add: allocated_def)
  have "take (field_size f) (drop (addr p + field_offset f)
           (store_bytes (mem p) (addr p + field_offset f) (take ?n src)))
        = take ?n src @ drop (length (take ?n src)) ?old"
    by (rule region_of_store [OF inb]) simp
  also have "\<dots> = take (field_size f) src @ drop (length src) ?old"
    using inb by (cases "length src \<le> field_size f") (simp_all add: min_def)
  finally have eq: "take (field_size f) (drop (addr p + field_offset f)
           (store_bytes (mem p) (addr p + field_offset f) (take ?n src)))
        = take (field_size f) src @ drop (length src) ?old" .
  have "addr (copy_to_field p f src) = addr p"
    and "mem (copy_to_field p f src) = store_bytes (mem p) (addr p + field_offset f) (take ?n src)"
    by (simp_all add: copy_to_field_def Let_def)
  with eq show ?thesis
    using assms allocated_copy [OF assms, of f src]
    by (simp add: load_allocated)
qed

lemmas copy_simps = load_copy_other load_copy_same allocated_copy allocated_new load_new

lemma allZeros_iff: "allZeros r \<longleftrightarrow> r = replicate (length r) 0"
  by (induction r) auto

lemma load_length: "load_field p f = Some v \<Longrightarrow> length v = field_size f"
  by (auto simp: load_field_def read_bytes_eq split: if_splits)

lemma hexdigit_lower: "n < 16 \<Longrightarrow> hexdigit n \<in> set hextable"
  unfolding hexdigit_def by (rule nth_mem) (simp add: hextable_def)

lemma hex_byte_lower: "set (hex_byte b) \<subseteq> set hextable"
proof -
  have "unat b < 256" using unsigned_less [of b] by simp
  then have "unat b div 16 < 16" "unat b mod 16 < 16" by simp_all
  then show ?thesis
    using hexdigit_lower [of "unat b div 16"] hexdigit_lower [of "unat b mod 16"]
    by (simp add: hex_byte_def)
qed

lemma hex_lower: "set (hex bs) \<subseteq> set hextable"
  using hex_byte_lower by (auto simp: hex_def)

lemma length_hex: "length (hex bs) = 2 * length bs"
  by (induction bs) (simp_all add: hex_def hex_byte_def)

lemma hex_zero: "hex (replicate n 0) = concat (replicate n ''00'')"
  by (induction n) (simp_all add: hex_def hex_byte_def hexdigit_def hextable_def)

lemma pad_eq: "take 48 src @ replicate (48 - length src) 0 = zero_padded_48 src"
  by (simp add: zero_padded_48_def)

lemma length_zero_padded_48: "length (zero_padded_48 src) = 48"
  by (simp add: zero_padded_48_def)

lemma load_body_measurements:
  "load_field (tdReport_of_body body) MrTd = Some (zero_padded_48 (mrTd body))"
  "load_field (tdReport_of_body body) MrConfigId = Some (zero_padded_48 (mrConfigId body))"
  "load_field (tdReport_of_body body) MrOwner = Some (zero_padded_48 (mrOwner body))"
  "load_field (tdReport_of_body body) MrOwnerConfig = Some (zero_padded_48 (mrOwnerConfig body))"
  by (simp_all add: tdReport_of_body_def Let_def copy_simps field_size_simps pad_eq)

lemma load_body_registers:
  "4 \<le> length (rtmrs body) \<Longrightarrow>
     load_field (tdReport_of_body body) Rtmr0 = Some (zero_padded_48 (rtmrs body ! 0))
   \<and> load_field (tdReport_of_body body) Rtmr1 = Some (zero_padded_48 (rtmrs body ! 1))
   \<and> load_field (tdReport_of_body body) Rtmr2 = Some (zero_padded_48 (rtmrs body ! 2))
   \<and> load_field (tdReport_of_body body) Rtmr3 = Some (zero_padded_48 (rtmrs body ! 3))"
  by (simp add: tdReport_of_body_def Let_def copy_simps field_size_simps pad_eq)

lemma load_body_no_registers:
  "length (rtmrs body) < 4 \<Longrightarrow>
     load_field (tdReport_of_body body) Rtmr0 = Some (replicate 48 0)
   \<and> load_field (tdReport_of_body body) Rtmr1 = Some (replicate 48 0)
   \<and> load_field (tdReport_of_body body) Rtmr2 = Some (replicate 48 0)
   \<and> load_field (tdReport_of_body body) Rtmr3 = Some (replicate 48 0)"
  by (simp add: tdReport_of_body_def Let_def copy_simps field_size_simps)

lemma take4: "4 \<le> length xs \<Longrightarrow> take 4 xs = [xs ! 0, xs ! 1, xs ! 2, xs ! 3]"
  by (auto simp: list_eq_iff_nth_eq less_Suc_eq numeral_nat nth_Cons')

lemma print_body: "printRTMRValues (tdReport_of_body body) = Some (body_report body)"
proof (cases "4 \<le> length (rtmrs body)")
  case True
  then show ?thesis
    using load_body_registers [OF True]
    by (simp add: printRTMRValues_def load_body_measurements body_report_def body_registers_def take4)
next
  case False
  then have "length (rtmrs body) < 4" by simp
  from load_body_no_registers [OF this] False show ?thesis
    by (simp add: printRTMRValues_def load_body_measurements body_report_def body_registers_def
        numeral_nat)
qed

lemma extract_with_body:
  "tdQuoteBody quote = Some body \<Longrightarrow>
   extractFromQuoteV4 ext quote = Some (validateQuoteStructure ext quote @ body_report body)"
  by (simp add: extractFromQuoteV4_def print_body)

lemma rstrip_newline_decomp: "\<exists>n. C = rstrip_newline C @ replicate n 0x0A"
proof -
  let ?t = "takeWhile (\<lambda>b. b = (0x0A::byte)) (rev C)"
  have "\<forall>b\<in>set ?t. b = 0x0A" by (auto dest: set_takeWhileD)
  then have t: "replicate (length ?t) 0x0A = ?t" by (rule replicate_length_same)
  have "C = rev (rev C)" by simp
  also have "rev C = ?t @ dropWhile (\<lambda>b. b = (0x0A::byte)) (rev C)"
    by (simp only: takeWhile_dropWhile_id)
  also have "rev (?t @ dropWhile (\<lambda>b. b = (0x0A::byte)) (rev C)) = rstrip_newline C @ rev ?t"
    by (simp only: rev_append rstrip_newline_def)
  also have "rev ?t = replicate (length ?t) 0x0A" by (subst t [symmetric]) (simp only: rev_replicate)
  finally show ?thesis by blast
qed

lemma rstrip_newline_no_trailing: "\<not> (\<exists>P. rstrip_newline C = P @ [0x0A])"
proof
  assume "\<exists>P. rstrip_newline C = P @ [0x0A]"
  then obtain P where "rev (dropWhile (\<lambda>b. b = (0x0A::byte)) (rev C)) = P @ [0x0A]"
    by (auto simp: rstrip_newline_def)
  then have "rev (rev (dropWhile (\<lambda>b. b = (0x0A::byte)) (rev C))) = rev (P @ [0x0A])" by (rule arg_cong)
  then have d: "dropWhile (\<lambda>b. b = (0x0A::byte)) (rev C) = 0x0A # rev P" by simp
  then have "dropWhile (\<lambda>b. b = (0x0A::byte)) (rev C) \<noteq> []" by simp
  then have "hd (dropWhile (\<lambda>b. b = (0x0A::byte)) (rev C)) \<noteq> 0x0A" by (rule hd_dropWhile)
  with d show False by simp
qed

lemma rstrip_newline_examples:
  "rstrip_newline [0x43, 0x0A] = [0x43]"
  "rstrip_newline [0x0A, 0x43, 0x0A, 0x0A] = [0x0A, 0x43]"
  "rstrip_newline [0x43, 0x0D, 0x0A] = [0x43, 0x0D]"
  by (simp_all add: rstrip_newline_def)

lemma SetBytes_snoc: "SetBytes (bs @ [b]) = SetBytes bs * 256 + unat b"
  by (simp add: SetBytes_def)

lemma SetBytes_big_endian:
  "SetBytes bs = (\<Sum>i<length bs. unat (bs ! i) * 256 ^ (length bs - 1 - i))"
proof (induction bs rule: rev_induct)
  case Nil
  show ?case by (simp add: SetBytes_def)
next
  case (snoc b bs)
  have "(\<Sum>i<length bs. unat ((bs @ [b]) ! i) * 256 ^ (length bs - i))
        = (\<Sum>i<length bs. unat (bs ! i) * 256 ^ (length bs - 1 - i) * 256)"
  proof (rule sum.cong)
    fix i assume "i \<in> {..<length bs}"
    then have i: "i < length bs" by simp
    then have "length bs - i = Suc (length bs - 1 - i)" by simp
    then show "unat ((bs @ [b]) ! i) * 256 ^ (length bs - i)
               = unat (bs ! i) * 256 ^ (length bs - 1 - i) * 256"
      using i by (simp add: nth_append)
  qed simp
  then show ?case
    using snoc by (simp add: SetBytes_snoc sum_distrib_right)
qed

lemma payload_events_no_hash:
  "\<not> list_ex hash_or_verify (fst (createSignedPayload ext quote))"
  by (simp add: createSignedPayload_def hash_or_verify_def Let_def split: option.splits)

lemma payload_ok:
  "header quote = Some hdr \<Longrightarrow> tdQuoteBody quote = Some body \<Longrightarrow>
   abi_HeaderToAbiBytes ext hdr = Some hb \<Longrightarrow> abi_TdQuoteBodyToAbiBytes ext body = Some bb \<Longrightarrow>
   createSignedPayload ext quote =
     ([Called (HeaderToAbiBytes hdr), Called (TdQuoteBodyToAbiBytes body),
       SignedPayloadLength (length (hb @ bb))], Some (hb @ bb))"
  by (simp add: createSignedPayload_def)

lemma payload_none_iff:
  "snd (createSignedPayload ext quote) = None \<longleftrightarrow>
     (case header quote of None \<Rightarrow> True
      | Some hdr \<Rightarrow> (case tdQuoteBody quote of None \<Rightarrow> True
          | Some body \<Rightarrow> abi_HeaderToAbiBytes ext hdr = None \<or> abi_TdQuoteBodyToAbiBytes ext body = None))"
  by (simp add: createSignedPayload_def Let_def split: option.splits)

lemma sample_key_xy:
  "SetBytes (take 32 sample_key) = P256_Gx" "SetBytes (drop 32 sample_key) = P256_Gy"
  by (simp_all add: sample_key_def SetBytes_def P256_Gx_def P256_Gy_def)

lemma base_point_on_curve: "P256_equation P256_Gx P256_Gy"
  by (simp add: P256_equation_def P256_Gx_def P256_Gy_def P256_p_def P256_b_def)

lemma sample_lengths: "length sample_signature = 64" "length sample_key = 64"
  by (simp_all add: sample_signature_def sample_key_def)

lemma payload_events_plain: "list_all plain_event (fst (createSignedPayload ext quote))"
  by (simp add: createSignedPayload_def plain_event_def later_strategy_def ends_run_def Let_def
      split: option.splits)

lemma signature_events_plain:
  "list_all plain_event (validateECDSASignature ext quote sig publicKey)"
proof (cases "createSignedPayload ext quote")
  case (Pair evs r)
  with payload_events_plain [of ext quote] have "list_all plain_event evs" by simp
  with Pair show ?thesis
    by (cases r)
      (simp_all add: validateECDSASignature_def Let_def plain_event_def later_strategy_def
        ends_run_def)
qed

lemma validation_events_plain: "list_all plain_event (validateQuoteStructure ext quote)"
proof (cases "header quote")
  case None
  then show ?thesis
    by (simp add: validateQuoteStructure_def plain_event_def later_strategy_def ends_run_def)
next
  case (Some hdr)
  show ?thesis
  proof (cases "signedData quote")
    case None
    with Some show ?thesis
      by (simp add: validateQuoteStructure_def plain_event_def later_strategy_def ends_run_def)
  next
    case (Some sd)
    have "list_all plain_event (validateECDSASignature ext quote (signature sd) (ecdsaAttestationKey sd))"
      by (rule signature_events_plain)
    with Some \<open>header quote = Some hdr\<close> show ?thesis
      by (simp add: validateQuoteStructure_def Let_def plain_event_def later_strategy_def
          ends_run_def)
  qed
qed

lemma rtmr_line_plain: "plain_event (rtmr_line ir)"
  by (cases ir) (simp add: rtmr_line_def plain_event_def later_strategy_def ends_run_def)

lemma report_events_plain: "list_all plain_event (body_report body)"
  by (simp add: body_report_def list_all_iff rtmr_line_plain)
    (simp add: plain_event_def later_strategy_def ends_run_def)



lemma sample_nonempty: "sample_signature \<noteq> []" "sample_key \<noteq> []"
  by (simp_all add: sample_signature_def sample_key_def)

lemma sample_signature_run:
  "validateECDSASignature sample_ext sample_quote sample_signature sample_key =
       [SignatureR (hex (take 32 sample_signature)), SignatureS (hex (drop 32 sample_signature)),
        PublicKeyX (hex (take 32 sample_key)), PublicKeyY (hex (drop 32 sample_key)),
        Called (IsOnCurve P256_Gx P256_Gy),
        PublicKeyValid,
        Called (HeaderToAbiBytes sample_header),
        Called (TdQuoteBodyToAbiBytes (sample_body four_registers)),
        SignedPayloadLength 632,
        Called (Sha256 (replicate 48 0 @ replicate 584 0)),
        SignedDataHash (hex (replicate 32 0)),
        Called (EcdsaVerify P256_Gx P256_Gy (replicate 32 0)
                  (SetBytes (take 32 sample_signature)) (SetBytes (drop 32 sample_signature))),
        VerificationFailed]"
  by (simp add: sample_lengths sample_key_xy base_point_on_curve sample_ext_def sample_quote_def
      validateECDSASignature_def createSignedPayload_def Let_def)

lemma raw_report_needs_1048_bytes:
  "printRTMRValues \<lparr>mem = B, addr = 48\<rparr> = None \<longleftrightarrow> length B < 1048"
  by (simp add: printRTMRValues_def load_cast field_size_simps field_offset_simps
      bind_eq_None_conv)

section \<open>Raw-mode extraction: the claims\<close>

text \<open>
  C3. A buffer shorter than 632 bytes is rejected with the quote-too-short error (which
  carries the length, as the message does), and no TD report is returned: the raw-mode
  run ends with that error as a fatal one, and reports no field.
\<close>

theorem C3_short_quote_rejected:
  "length B < 632 \<Longrightarrow>
     extractTDReportFromRawQuote B = Inl (QuoteTooShort (length B))
   \<and> extractFromRawQuote ext B =
       Some (Called (VerifyRawTdxQuote B) #
             (if verify_RawTdxQuote ext B then [] else [VerifyWarning]) @
             [Fatal (ExtractFailed (QuoteTooShort (length B)))])"
  by (simp add: extractTDReportFromRawQuote_def extractFromRawQuote_def)

theorem C3_short_quote_rejected_witness:
  "extractTDReportFromRawQuote (replicate 631 0) = Inl (QuoteTooShort 631)
   \<and> extractFromRawQuote sample_ext (replicate 631 0) =
       Some [Called (VerifyRawTdxQuote (replicate 631 0)), VerifyWarning,
             Fatal (ExtractFailed (QuoteTooShort 631))]"
  using C3_short_quote_rejected [of "replicate 631 0" sample_ext]
  by (simp add: sample_ext_def)

text \<open>
  C1. The claim fails on the code. The struct the slice is cast to is 1048 bytes long, not
  584: every field that is printed starts at offset 616 or later, past the 584-byte
  sub-slice. For a quote of exactly 632 bytes the extraction returns the address 48, and
  reading any register or \<open>MrTd\<close> through it leaves the buffer, so the report has no
  defined result.
\<close>

theorem C1_cast_reads_past_buffer:
  "extractTDReportFromRawQuote (replicate 632 0) = Inr \<lparr>mem = replicate 632 0, addr = 48\<rparr>
   \<and> load_field \<lparr>mem = replicate 632 0, addr = 48\<rparr> Rtmr0 = None
   \<and> load_field \<lparr>mem = replicate 632 0, addr = 48\<rparr> Rtmr1 = None
   \<and> load_field \<lparr>mem = replicate 632 0, addr = 48\<rparr> Rtmr2 = None
   \<and> load_field \<lparr>mem = replicate 632 0, addr = 48\<rparr> Rtmr3 = None
   \<and> load_field \<lparr>mem = replicate 632 0, addr = 48\<rparr> MrTd = None
   \<and> printRTMRValues \<lparr>mem = replicate 632 0, addr = 48\<rparr> = None
   \<and> sizeof_TDReport = 1048
   \<and> 584 \<le> field_offset MrTd \<and> 584 \<le> field_offset Rtmr0"
  by (simp add: extract_ok load_cast field_size_simps field_offset_simps printRTMRValues_def
      sizeof_TDReport_eq)

text \<open>
  C2, as amended. For a buffer of at least 632 bytes the extraction succeeds and returns
  the address 48 in the buffer. A field whose bytes 48 + offset up to 48 + offset + width
  all lie in the buffer reads as exactly that range; from 1096 bytes on this holds for
  every field, with the registers at 856, 904, 952 and 1000, \<open>MrTd\<close> at 664 and
  \<open>MrConfigId\<close> at 712.
\<close>

theorem C2_fields_at_offsets:
  "632 \<le> length B \<Longrightarrow>
     extractTDReportFromRawQuote B = Inr \<lparr>mem = B, addr = 48\<rparr>
   \<and> (\<forall>f. 48 + field_offset f + field_size f \<le> length B \<longrightarrow>
          load_field \<lparr>mem = B, addr = 48\<rparr> f
            = Some (take (field_size f) (drop (48 + field_offset f) B))
        \<and> length (take (field_size f) (drop (48 + field_offset f) B)) = field_size f)
   \<and> (1096 \<le> length B \<longrightarrow>
          load_field \<lparr>mem = B, addr = 48\<rparr> Rtmr0 = Some (take 48 (drop (48 + 808) B))
        \<and> load_field \<lparr>mem = B, addr = 48\<rparr> Rtmr1 = Some (take 48 (drop (48 + 856) B))
        \<and> load_field \<lparr>mem = B, addr = 48\<rparr> Rtmr2 = Some (take 48 (drop (48 + 904) B))
        \<and> load_field \<lparr>mem = B, addr = 48\<rparr> Rtmr3 = Some (take 48 (drop (48 + 952) B))
        \<and> load_field \<lparr>mem = B, addr = 48\<rparr> MrTd = Some (take 48 (drop (48 + 616) B))
        \<and> load_field \<lparr>mem = B, addr = 48\<rparr> MrConfigId = Some (take 48 (drop (48 + 664) B)))"
  by (simp add: extract_ok load_cast field_size_simps field_offset_simps)

theorem C2_fields_at_offsets_witness:
  "632 \<le> length (replicate 856 (0::byte) @ replicate 48 9 @ replicate 192 0)
   \<and> load_field \<lparr>mem = replicate 856 0 @ replicate 48 9 @ replicate 192 0, addr = 48\<rparr> Rtmr0
       = Some (replicate 48 9)
   \<and> load_field \<lparr>mem = replicate 856 0 @ replicate 48 9 @ replicate 192 0, addr = 48\<rparr> Rtmr1
       = Some (replicate 48 0)"
  using C2_fields_at_offsets [of "replicate 856 0 @ replicate 48 9 @ replicate 192 0"]
  by simp

text \<open>
  C2 as stated fails at a quote of 900 bytes: the extraction succeeds, but the
  range 856 to 904 of \<open>rtmr0\<close> is not all in the buffer (44 bytes of it are), and the
  read has no result.
\<close>

theorem C2_short_buffer_counterexample:
  "extractTDReportFromRawQuote (replicate 900 1) = Inr \<lparr>mem = replicate 900 1, addr = 48\<rparr>
   \<and> load_field \<lparr>mem = replicate 900 1, addr = 48\<rparr> Rtmr0 = None
   \<and> length (take 48 (drop (48 + 808) (replicate 900 (1::byte)))) = 44"
  by (simp add: extract_ok load_cast field_size_simps field_offset_simps)

section \<open>The report: the claims\<close>

text \<open>
  C8. Given the eight fields the report reads, each register line is the uninitialized
  marker exactly when the register is 48 zero bytes, and otherwise carries the
  register's hex encoding: 96 characters, all from the lowercase table.
\<close>

theorem C8_register_report:
  assumes "load_field p Rtmr0 = Some r0" "load_field p Rtmr1 = Some r1"
    "load_field p Rtmr2 = Some r2" "load_field p Rtmr3 = Some r3"
    "load_field p MrTd = Some a" "load_field p MrConfigId = Some b"
    "load_field p MrOwner = Some c" "load_field p MrOwnerConfig = Some d"
  shows "printRTMRValues p =
     Some [if r0 = replicate 48 0 then RtmrUninitialized 0 else RtmrHex 0 (hex r0),
           if r1 = replicate 48 0 then RtmrUninitialized 1 else RtmrHex 1 (hex r1),
           if r2 = replicate 48 0 then RtmrUninitialized 2 else RtmrHex 2 (hex r2),
           if r3 = replicate 48 0 then RtmrUninitialized 3 else RtmrHex 3 (hex r3),
           MrTdHex (hex a), MrConfigIdHex (hex b), MrOwnerHex (hex c), MrOwnerConfigHex (hex d)]
     \<and> length r0 = 48 \<and> length r1 = 48 \<and> length r2 = 48 \<and> length r3 = 48
     \<and> length (hex r0) = 96 \<and> length (hex r1) = 96 \<and> length (hex r2) = 96 \<and> length (hex r3) = 96
     \<and> set (hex r0 @ hex r1 @ hex r2 @ hex r3) \<subseteq> set hextable"
proof -
  have len: "length r0 = 48" "length r1 = 48" "length r2 = 48" "length r3 = 48"
    using assms(1-4) by (auto dest: load_length simp: field_size_simps)
  have z: "allZeros r0 \<longleftrightarrow> r0 = replicate 48 0" "allZeros r1 \<longleftrightarrow> r1 = replicate 48 0"
    "allZeros r2 \<longleftrightarrow> r2 = replicate 48 0" "allZeros r3 \<longleftrightarrow> r3 = replicate 48 0"
    using len allZeros_iff [of r0] allZeros_iff [of r1] allZeros_iff [of r2] allZeros_iff [of r3]
    by simp_all
  have out: "printRTMRValues p =
     Some [rtmr_line (0, r0), rtmr_line (1, r1), rtmr_line (2, r2), rtmr_line (3, r3),
           MrTdHex (hex a), MrConfigIdHex (hex b), MrOwnerHex (hex c), MrOwnerConfigHex (hex d)]"
    using assms by (simp add: printRTMRValues_def enumerate_eq_zip upt_rec numeral_nat)
  have low: "set (hex r0 @ hex r1 @ hex r2 @ hex r3) \<subseteq> set hextable"
    using hex_lower [of r0] hex_lower [of r1] hex_lower [of r2] hex_lower [of r3] by simp
  show ?thesis
    unfolding out using len z low by (simp add: rtmr_line_def length_hex)
qed

theorem C8_register_report_witness:
  "printRTMRValues \<lparr>mem = replicate 999 0 @ [1] @ replicate 48 0, addr = 0\<rparr> =
     Some [RtmrUninitialized 0, RtmrUninitialized 1, RtmrUninitialized 2,
           RtmrHex 3 (concat (replicate 47 ''00'') @ ''01''),
           MrTdHex (concat (replicate 48 ''00'')), MrConfigIdHex (concat (replicate 48 ''00'')),
           MrOwnerHex (concat (replicate 48 ''00'')), MrOwnerConfigHex (concat (replicate 48 ''00''))]"
proof -
  let ?p = "\<lparr>mem = replicate 999 0 @ [1] @ replicate 48 0, addr = 0\<rparr>"
  have l: "load_field ?p Rtmr0 = Some (replicate 48 0)" "load_field ?p Rtmr1 = Some (replicate 48 0)"
    "load_field ?p Rtmr2 = Some (replicate 48 0)" "load_field ?p Rtmr3 = Some (replicate 47 0 @ [1])"
    "load_field ?p MrTd = Some (replicate 48 0)" "load_field ?p MrConfigId = Some (replicate 48 0)"
    "load_field ?p MrOwner = Some (replicate 48 0)" "load_field ?p MrOwnerConfig = Some (replicate 48 0)"
    by (simp_all add: load_cast field_size_simps field_offset_simps)
  have ne: "replicate 47 0 @ [1] \<noteq> replicate 48 (0::byte)"
    by (simp add: list_eq_iff_nth_eq) (rule exI [of _ 47], simp add: nth_append)
  have h: "hex (replicate 47 0 @ [1]) = concat (replicate 47 ''00'') @ ''01''"
    using hex_zero [of 47] by (simp add: hex_def) (simp add: hex_byte_def hexdigit_def hextable_def)
  show ?thesis
    using C8_register_report [OF l] ne h hex_zero [of 48] by simp
qed

section \<open>Extraction from a decoded quote: the claims\<close>

text \<open>
  C9. With at least four entries in the register list, the four registers of the TD
  report are the first four entries in order, each as \<open>copy\<close> leaves it in a zeroed
  48-byte field; with fewer than four entries all four registers stay zero.
\<close>

theorem C9_registers_from_list:
  "(4 \<le> length (rtmrs body) \<longrightarrow>
       load_field (tdReport_of_body body) Rtmr0
         = Some (take 48 (rtmrs body ! 0) @ replicate (48 - length (rtmrs body ! 0)) 0)
     \<and> load_field (tdReport_of_body body) Rtmr1
         = Some (take 48 (rtmrs body ! 1) @ replicate (48 - length (rtmrs body ! 1)) 0)
     \<and> load_field (tdReport_of_body body) Rtmr2
         = Some (take 48 (rtmrs body ! 2) @ replicate (48 - length (rtmrs body ! 2)) 0)
     \<and> load_field (tdReport_of_body body) Rtmr3
         = Some (take 48 (rtmrs body ! 3) @ replicate (48 - length (rtmrs body ! 3)) 0))
   \<and> (length (rtmrs body) < 4 \<longrightarrow>
       load_field (tdReport_of_body body) Rtmr0 = Some (replicate 48 0)
     \<and> load_field (tdReport_of_body body) Rtmr1 = Some (replicate 48 0)
     \<and> load_field (tdReport_of_body body) Rtmr2 = Some (replicate 48 0)
     \<and> load_field (tdReport_of_body body) Rtmr3 = Some (replicate 48 0))"
  using load_body_registers [of body] load_body_no_registers [of body]
  by (simp add: pad_eq)


theorem C9_registers_from_list_witness:
  "load_field (tdReport_of_body (sample_body four_registers)) Rtmr0 = Some (replicate 48 1)
   \<and> load_field (tdReport_of_body (sample_body four_registers)) Rtmr1 = Some (replicate 48 2)
   \<and> load_field (tdReport_of_body (sample_body four_registers)) Rtmr2 = Some (replicate 48 3)
   \<and> load_field (tdReport_of_body (sample_body four_registers)) Rtmr3 = Some (replicate 48 4)
   \<and> load_field (tdReport_of_body (sample_body (take 3 four_registers))) Rtmr0 = Some (replicate 48 0)
   \<and> load_field (tdReport_of_body (sample_body (take 3 four_registers))) Rtmr1 = Some (replicate 48 0)
   \<and> load_field (tdReport_of_body (sample_body (take 3 four_registers))) Rtmr2 = Some (replicate 48 0)
   \<and> load_field (tdReport_of_body (sample_body (take 3 four_registers))) Rtmr3 = Some (replicate 48 0)"
  using C9_registers_from_list [of "sample_body four_registers"]
    C9_registers_from_list [of "sample_body (take 3 four_registers)"]
  by (simp add: sample_body_def four_registers_def)

text \<open>
  C10. Every copied field holds its source padded with zeros or cut to 48 bytes, so it is
  always 48 bytes long, and a quote with a body always yields the report: no length is
  ever reported as an error.
\<close>

theorem C10_copy_pads_and_truncates:
  "load_field (tdReport_of_body body) MrTd = Some (zero_padded_48 (mrTd body))
   \<and> load_field (tdReport_of_body body) MrConfigId = Some (zero_padded_48 (mrConfigId body))
   \<and> load_field (tdReport_of_body body) MrOwner = Some (zero_padded_48 (mrOwner body))
   \<and> load_field (tdReport_of_body body) MrOwnerConfig = Some (zero_padded_48 (mrOwnerConfig body))
   \<and> (4 \<le> length (rtmrs body) \<longrightarrow>
         load_field (tdReport_of_body body) Rtmr0 = Some (zero_padded_48 (rtmrs body ! 0))
       \<and> load_field (tdReport_of_body body) Rtmr1 = Some (zero_padded_48 (rtmrs body ! 1))
       \<and> load_field (tdReport_of_body body) Rtmr2 = Some (zero_padded_48 (rtmrs body ! 2))
       \<and> load_field (tdReport_of_body body) Rtmr3 = Some (zero_padded_48 (rtmrs body ! 3)))
   \<and> (\<forall>src. length (zero_padded_48 src) = 48
          \<and> (length src < 48 \<longrightarrow> zero_padded_48 src = src @ replicate (48 - length src) 0)
          \<and> (48 \<le> length src \<longrightarrow> zero_padded_48 src = take 48 src))
   \<and> (tdQuoteBody quote = Some body \<longrightarrow>
         extractFromQuoteV4 ext quote = Some (validateQuoteStructure ext quote @ body_report body))"
  using load_body_registers [of body]
  by (simp add: load_body_measurements extract_with_body) (simp add: zero_padded_48_def)

theorem C10_copy_pads_and_truncates_witness:
  "load_field (tdReport_of_body (sample_body four_registers)) MrTd = Some (replicate 48 5)
   \<and> load_field (tdReport_of_body (sample_body four_registers)) MrConfigId
       = Some ([1, 2, 3] @ replicate 45 0)
   \<and> load_field (tdReport_of_body (sample_body four_registers)) MrOwner = Some (replicate 48 7)
   \<and> load_field (tdReport_of_body (sample_body four_registers)) MrOwnerConfig
       = Some (replicate 48 0)
   \<and> load_field (tdReport_of_body (sample_body four_registers)) Rtmr3 = Some (replicate 48 4)
   \<and> extractFromQuoteV4 sample_ext sample_quote
       = Some (validateQuoteStructure sample_ext sample_quote
               @ body_report (sample_body four_registers))"
  using C10_copy_pads_and_truncates [of "sample_body four_registers" sample_quote sample_ext]
  by (simp add: sample_body_def four_registers_def sample_quote_def zero_padded_48_def)

section \<open>The boot measurement replay: the claim\<close>

text \<open>
  C4. The replayed register is three extensions of 48 zero bytes, by the digests of the
  kernel, of the initrd and of the stripped command line, in that order, where an
  extension hashes the register followed by the measurement. The stripped command line
  is the command line without its trailing newline bytes: the two differ by a run of
  newlines only, and the stripped one does not end in a newline. The script prints the
  register in hex.
\<close>

theorem C4_replay_chain:
  "replay H K I C =
     extend H (extend H (extend H (replicate 48 0) (sha384 H K)) (sha384 H I))
       (sha384 H (rstrip_newline C))
   \<and> extend H a m = H (a @ m)
   \<and> sha384 H d = H d
   \<and> (\<exists>n. C = rstrip_newline C @ replicate n 0x0A)
   \<and> \<not> (\<exists>P. rstrip_newline C = P @ [0x0A])
   \<and> replay_output H K I C = ''RTMR[1] = '' @ hex (replay H K I C)"
  using rstrip_newline_decomp [of C] rstrip_newline_no_trailing [of C]
  by (simp add: replay_def extend_def sha384_def replay_output_def)

section \<open>Signature validation: the claims\<close>

text \<open>
  C5, as amended. With a 64-byte signature and a 64-byte key, \<open>r\<close>, \<open>s\<close>, \<open>x\<close> and
  \<open>y\<close> are the big-endian values of the two halves of each. A key off the curve is
  reported and nothing else is called. A key on the curve, with the header and the body
  present and both ABI encodings successful, leads to the hash of the header bytes
  followed by the body bytes and to the ECDSA check of \<open>(r, s)\<close> over that hash with
  the key \<open>(x, y)\<close>, in this order. A key on the curve whose payload cannot be built
  (no body, or an encoding fails) is reported as such, and neither the hash nor the ECDSA
  check is attempted.
\<close>

theorem C5_signature_steps:
  assumes "length sig = 64" "length publicKey = 64"
  shows
    "(\<not> P256_IsOnCurve ext (SetBytes (take 32 publicKey)) (SetBytes (drop 32 publicKey)) \<longrightarrow>
        validateECDSASignature ext quote sig publicKey =
          [SignatureR (hex (take 32 sig)), SignatureS (hex (drop 32 sig)),
           PublicKeyX (hex (take 32 publicKey)), PublicKeyY (hex (drop 32 publicKey)),
           Called (IsOnCurve (SetBytes (take 32 publicKey)) (SetBytes (drop 32 publicKey))),
           PublicKeyNotOnCurve])
     \<and> (P256_IsOnCurve ext (SetBytes (take 32 publicKey)) (SetBytes (drop 32 publicKey))
          \<and> header quote = Some hdr \<and> tdQuoteBody quote = Some body
          \<and> abi_HeaderToAbiBytes ext hdr = Some hb
          \<and> abi_TdQuoteBodyToAbiBytes ext body = Some bb \<longrightarrow>
        validateECDSASignature ext quote sig publicKey =
          [SignatureR (hex (take 32 sig)), SignatureS (hex (drop 32 sig)),
           PublicKeyX (hex (take 32 publicKey)), PublicKeyY (hex (drop 32 publicKey)),
           Called (IsOnCurve (SetBytes (take 32 publicKey)) (SetBytes (drop 32 publicKey))),
           PublicKeyValid,
           Called (HeaderToAbiBytes hdr), Called (TdQuoteBodyToAbiBytes body),
           SignedPayloadLength (length (hb @ bb)),
           Called (Sha256 (hb @ bb)),
           SignedDataHash (hex (sha256_Sum256 ext (hb @ bb))),
           Called (EcdsaVerify (SetBytes (take 32 publicKey)) (SetBytes (drop 32 publicKey))
                     (sha256_Sum256 ext (hb @ bb))
                     (SetBytes (take 32 sig)) (SetBytes (drop 32 sig))),
           if ecdsa_Verify ext (SetBytes (take 32 publicKey)) (SetBytes (drop 32 publicKey))
                (sha256_Sum256 ext (hb @ bb)) (SetBytes (take 32 sig)) (SetBytes (drop 32 sig))
           then VerificationPassed else VerificationFailed])
     \<and> (P256_IsOnCurve ext (SetBytes (take 32 publicKey)) (SetBytes (drop 32 publicKey))
          \<and> snd (createSignedPayload ext quote) = None \<longrightarrow>
        validateECDSASignature ext quote sig publicKey =
          [SignatureR (hex (take 32 sig)), SignatureS (hex (drop 32 sig)),
           PublicKeyX (hex (take 32 publicKey)), PublicKeyY (hex (drop 32 publicKey)),
           Called (IsOnCurve (SetBytes (take 32 publicKey)) (SetBytes (drop 32 publicKey))),
           PublicKeyValid]
          @ fst (createSignedPayload ext quote) @ [PayloadReconstructionFailed]
        \<and> \<not> list_ex hash_or_verify (validateECDSASignature ext quote sig publicKey))
     \<and> SetBytes (take 32 sig) = (\<Sum>i<32. unat (sig ! i) * 256 ^ (31 - i))
     \<and> SetBytes (drop 32 sig) = (\<Sum>i<32. unat (sig ! (32 + i)) * 256 ^ (31 - i))
     \<and> SetBytes (take 32 publicKey) = (\<Sum>i<32. unat (publicKey ! i) * 256 ^ (31 - i))
     \<and> SetBytes (drop 32 publicKey) = (\<Sum>i<32. unat (publicKey ! (32 + i)) * 256 ^ (31 - i))"
proof -
  let ?x = "SetBytes (take 32 publicKey)" and ?y = "SetBytes (drop 32 publicKey)"
  have off: "\<not> P256_IsOnCurve ext ?x ?y \<Longrightarrow>
        validateECDSASignature ext quote sig publicKey =
          [SignatureR (hex (take 32 sig)), SignatureS (hex (drop 32 sig)),
           PublicKeyX (hex (take 32 publicKey)), PublicKeyY (hex (drop 32 publicKey)),
           Called (IsOnCurve ?x ?y), PublicKeyNotOnCurve]"
    using assms by (simp add: validateECDSASignature_def Let_def)
  have on: "P256_IsOnCurve ext ?x ?y \<Longrightarrow>
        validateECDSASignature ext quote sig publicKey =
          [SignatureR (hex (take 32 sig)), SignatureS (hex (drop 32 sig)),
           PublicKeyX (hex (take 32 publicKey)), PublicKeyY (hex (drop 32 publicKey)),
           Called (IsOnCurve ?x ?y), PublicKeyValid] @
          (case createSignedPayload ext quote of
             (evs, None) \<Rightarrow> evs @ [PayloadReconstructionFailed]
           | (evs, Some signedPayload) \<Rightarrow>
               evs @
               [Called (Sha256 signedPayload), SignedDataHash (hex (sha256_Sum256 ext signedPayload)),
                Called (EcdsaVerify ?x ?y (sha256_Sum256 ext signedPayload)
                          (SetBytes (take 32 sig)) (SetBytes (drop 32 sig))),
                if ecdsa_Verify ext ?x ?y (sha256_Sum256 ext signedPayload)
                    (SetBytes (take 32 sig)) (SetBytes (drop 32 sig))
                then VerificationPassed else VerificationFailed])"
    using assms by (simp add: validateECDSASignature_def Let_def split: prod.splits option.splits)
  have ok: "P256_IsOnCurve ext ?x ?y \<and> header quote = Some hdr \<and> tdQuoteBody quote = Some body
          \<and> abi_HeaderToAbiBytes ext hdr = Some hb
          \<and> abi_TdQuoteBodyToAbiBytes ext body = Some bb \<Longrightarrow>
        validateECDSASignature ext quote sig publicKey =
          [SignatureR (hex (take 32 sig)), SignatureS (hex (drop 32 sig)),
           PublicKeyX (hex (take 32 publicKey)), PublicKeyY (hex (drop 32 publicKey)),
           Called (IsOnCurve ?x ?y),
           PublicKeyValid,
           Called (HeaderToAbiBytes hdr), Called (TdQuoteBodyToAbiBytes body),
           SignedPayloadLength (length (hb @ bb)),
           Called (Sha256 (hb @ bb)),
           SignedDataHash (hex (sha256_Sum256 ext (hb @ bb))),
           Called (EcdsaVerify ?x ?y (sha256_Sum256 ext (hb @ bb))
                     (SetBytes (take 32 sig)) (SetBytes (drop 32 sig))),
           if ecdsa_Verify ext ?x ?y
                (sha256_Sum256 ext (hb @ bb)) (SetBytes (take 32 sig)) (SetBytes (drop 32 sig))
           then VerificationPassed else VerificationFailed]"
    by (simp add: on payload_ok [of quote hdr body ext hb bb])
  have none: "P256_IsOnCurve ext ?x ?y \<and> snd (createSignedPayload ext quote) = None \<Longrightarrow>
        validateECDSASignature ext quote sig publicKey =
          [SignatureR (hex (take 32 sig)), SignatureS (hex (drop 32 sig)),
           PublicKeyX (hex (take 32 publicKey)), PublicKeyY (hex (drop 32 publicKey)),
           Called (IsOnCurve ?x ?y), PublicKeyValid]
          @ fst (createSignedPayload ext quote) @ [PayloadReconstructionFailed]
        \<and> \<not> list_ex hash_or_verify (validateECDSASignature ext quote sig publicKey)"
    using payload_events_no_hash [of ext quote]
    by (cases "createSignedPayload ext quote") (simp add: on hash_or_verify_def)
  have be: "SetBytes (take 32 sig) = (\<Sum>i<32. unat (sig ! i) * 256 ^ (31 - i))"
    "SetBytes (drop 32 sig) = (\<Sum>i<32. unat (sig ! (32 + i)) * 256 ^ (31 - i))"
    "SetBytes (take 32 publicKey) = (\<Sum>i<32. unat (publicKey ! i) * 256 ^ (31 - i))"
    "SetBytes (drop 32 publicKey) = (\<Sum>i<32. unat (publicKey ! (32 + i)) * 256 ^ (31 - i))"
    using assms by (simp_all add: SetBytes_big_endian)
  from off ok none be show ?thesis by blast
qed

theorem C5_signature_steps_witness:
  "length sample_signature = 64 \<and> length sample_key = 64
   \<and> P256_IsOnCurve sample_ext P256_Gx P256_Gy
   \<and> validateECDSASignature sample_ext sample_quote sample_signature sample_key =
       [SignatureR (hex (take 32 sample_signature)), SignatureS (hex (drop 32 sample_signature)),
        PublicKeyX (hex (take 32 sample_key)), PublicKeyY (hex (drop 32 sample_key)),
        Called (IsOnCurve P256_Gx P256_Gy),
        PublicKeyValid,
        Called (HeaderToAbiBytes sample_header),
        Called (TdQuoteBodyToAbiBytes (sample_body four_registers)),
        SignedPayloadLength 632,
        Called (Sha256 (replicate 48 0 @ replicate 584 0)),
        SignedDataHash (hex (replicate 32 0)),
        Called (EcdsaVerify P256_Gx P256_Gy (replicate 32 0)
                  (SetBytes (take 32 sample_signature)) (SetBytes (drop 32 sample_signature))),
        VerificationFailed]"
  using C5_signature_steps [where sig = sample_signature and publicKey = sample_key
      and ext = sample_ext and quote = sample_quote and hdr = sample_header
      and body = "sample_body four_registers" and hb = "replicate 48 0" and bb = "replicate 584 0"]
  by (simp add: sample_lengths sample_key_xy base_point_on_curve sample_ext_def sample_quote_def)

text \<open>
  C5 as stated fails at a quote that has a header and signed data but no body,
  with the curve's base point as the key: the key is on the curve, the payload cannot be
  built, and the run of the verifier ends there, with no hash and no ECDSA check.
\<close>

theorem C5_no_body_counterexample:
  "length sample_signature = 64 \<and> length sample_key = 64
   \<and> P256_IsOnCurve sample_ext (SetBytes (take 32 sample_key)) (SetBytes (drop 32 sample_key))
   \<and> validateECDSASignature sample_ext quote_without_body sample_signature sample_key =
       [SignatureR (hex (take 32 sample_signature)), SignatureS (hex (drop 32 sample_signature)),
        PublicKeyX (hex (take 32 sample_key)), PublicKeyY (hex (drop 32 sample_key)),
        Called (IsOnCurve P256_Gx P256_Gy),
        PublicKeyValid,
        PayloadReconstructionFailed]"
  by (simp add: sample_lengths sample_key_xy base_point_on_curve sample_ext_def
      quote_without_body_def validateECDSASignature_def createSignedPayload_def)

section \<open>The decoder and the run: the claims\<close>



text \<open>
  C7, as amended. For a decoded quote that has a TD quote body, whatever the libraries
  answer (a failed signature check, a key off the curve, a payload that cannot be
  built), the run is the validation followed by the eight report lines of the body, which
  depend on the body only, and no event of it is fatal.
\<close>

theorem C7_report_despite_verification:
  "tdQuoteBody quote = Some body \<Longrightarrow>
     extractFromQuoteV4 ext quote = Some (validateQuoteStructure ext quote @ body_report body)
   \<and> \<not> list_ex ends_run (validateQuoteStructure ext quote @ body_report body)
   \<and> length (body_report body) = 8"
  using validation_events_plain [of ext quote] report_events_plain [of body]
  by (auto simp: extract_with_body list_all_iff list_ex_iff plain_event_def body_report_def
      body_registers_def)

theorem C7_report_despite_verification_witness:
  "tdQuoteBody sample_quote = Some (sample_body four_registers)
   \<and> VerificationFailed \<in> set (validateQuoteStructure sample_ext sample_quote)
   \<and> extractFromQuoteV4 sample_ext sample_quote =
       Some (validateQuoteStructure sample_ext sample_quote
             @ body_report (sample_body four_registers))"
proof -
  have b: "tdQuoteBody sample_quote = Some (sample_body four_registers)"
    by (simp add: sample_quote_def)
  have "header sample_quote = Some sample_header" "signedData sample_quote = Some sample_signedData"
    by (simp_all add: sample_quote_def)
  then have "VerificationFailed \<in> set (validateQuoteStructure sample_ext sample_quote)"
    by (simp add: validateQuoteStructure_def sample_signedData_def sample_lengths
        sample_signature_run)
  with b C7_report_despite_verification [OF b, of sample_ext] show ?thesis by simp
qed

text \<open>
  C7 as stated fails at a decoded quote with a header and signed data but no TD
  quote body: the payload reconstruction fails, and the run then ends with the fatal
  error of line 98 without reporting any measurement field.
\<close>

theorem C7_missing_body_counterexample:
  "extractFromQuoteV4 sample_ext quote_without_body =
     Some [HeaderFields sample_header, SignaturePresent True 64, PublicKeyPresent True 64,
           EcdsaFormatDetected,
           SignatureR (hex (take 32 sample_signature)), SignatureS (hex (drop 32 sample_signature)),
           PublicKeyX (hex (take 32 sample_key)), PublicKeyY (hex (drop 32 sample_key)),
           Called (IsOnCurve P256_Gx P256_Gy),
           PublicKeyValid,
           PayloadReconstructionFailed,
           ShowSignature (hex sample_signature), ShowPublicKey (hex sample_key),
           Fatal NoTdQuoteBody]"
  by (simp add: extractFromQuoteV4_def validateQuoteStructure_def quote_without_body_def
      sample_signedData_def sample_lengths sample_nonempty sample_key_xy base_point_on_curve
      sample_ext_def validateECDSASignature_def createSignedPayload_def)

end
